theory Spec2Isabelle
  imports Main "HOL-Library.Char_ord" "HOL-Library.List_Lexorder" "HOL-Library.Sublist"
    "HOL-Library.Multiset"
begin

section \<open>Overview\<close>

text \<open>
  The repository publishes the catalog of Amazon Bedrock foundation models
  (\<^verbatim>\<open>bedrock_models.json\<close>) through a TypeScript library that resolves a model
  id and a region to a cross-region inference (CRIS) identifier, and through a web
  explorer that filters the catalog and draws the regions of an inference profile.
  This theory embeds the library's lookups (\<open>isModelAvailable\<close>,
  \<open>getAvailableRegions\<close>, \<open>hasGlobalProfile\<close>, \<open>getInferenceProfiles\<close>,
  \<open>getInferenceTypes\<close>, \<open>crisModelId\<close>, \<open>globalModelId\<close>) and the
  explorer's \<open>hasInferenceType\<close>, \<open>hasCRIS\<close>, \<open>getInferenceTypes\<close>,
  \<open>populateCrisRegions\<close> and the filter of \<open>showRegionMap\<close>, in their current
  revision, and states what they compute.
\<close>

section \<open>Strings of the host language\<close>

text \<open>
  Model ids, region codes and inference-type tags are JavaScript strings. They are
  modelled as \<open>string\<close> (a list of 8-bit characters); all the strings of the
  catalog are ASCII. \<open>toLowerCase\<close> maps the letters \<open>A\<close>..\<open>Z\<close> to
  \<open>a\<close>..\<open>z\<close> and leaves every other character alone, which is what
  \<^verbatim>\<open>String.prototype.toLowerCase\<close> does on ASCII text.
\<close>

definition toLowerCase_char :: "char \<Rightarrow> char" where
  "toLowerCase_char c =
     (if (65::nat) \<le> of_char c \<and> of_char c \<le> (90::nat)
      then char_of (of_char c + (32::nat)) else c)"

definition toLowerCase :: "string \<Rightarrow> string" where
  "toLowerCase s = map toLowerCase_char s"

text \<open>\<^verbatim>\<open>Array.prototype.join(sep)\<close> on an array of strings.\<close>

fun join :: "string \<Rightarrow> string list \<Rightarrow> string" where
  "join sep [] = []"
| "join sep [x] = x"
| "join sep (x # y # ys) = x @ sep @ join sep (y # ys)"

text \<open>The apostrophe that the error messages put around ids and regions.\<close>

definition apos :: string where
  "apos = [CHR 0x27]"

section \<open>The catalog\<close>

text \<open>
  The value of an \<^verbatim>\<open>inferenceProfile\<close> entry is either an array of regions
  (the GLOBAL shape) or an object from source region to an array of target regions.
  Objects are association lists in the order of \<^verbatim>\<open>Object.entries\<close>.
\<close>

datatype profile_data =
  RegionArray "string list"
| SourceMap "(string \<times> string list) list"

record model_info =
  regions :: "string list"
  inference_types :: "(string \<times> string list) list"
  inferenceProfile :: "(string \<times> profile_data) list option"
  model_lifecycle_status :: "string option"

text \<open>
  \<^verbatim>\<open>bedrock_models.json\<close> as the library sees it: the own keys of the
  parsed document and their records.
\<close>

type_synonym ModelDataMap = "string \<rightharpoonup> model_info"

subsection \<open>Reading a property\<close>

text \<open>
  \<^verbatim>\<open>obj[key]\<close> on an object of the parsed document finds an own key first and
  otherwise walks to \<^verbatim>\<open>Object.prototype\<close>, whose members every such object
  inherits. Those members are functions, and \<^verbatim>\<open>__proto__\<close> reads as
  \<^verbatim>\<open>Object.prototype\<close> itself: all of them are truthy, none is an array, and
  none has a property \<^verbatim>\<open>regions\<close>, \<^verbatim>\<open>inference_types\<close>,
  \<^verbatim>\<open>includes\<close>, \<^verbatim>\<open>filter\<close> or \<^verbatim>\<open>join\<close>.
\<close>

definition Object_prototype_members :: "string list" where
  "Object_prototype_members =
     [''constructor'', ''hasOwnProperty'', ''isPrototypeOf'', ''propertyIsEnumerable'',
      ''toLocaleString'', ''toString'', ''valueOf'', ''__proto__'',
      ''__defineGetter__'', ''__defineSetter__'', ''__lookupGetter__'', ''__lookupSetter__'']"

definition inherited_member :: "string \<Rightarrow> bool" where
  "inherited_member key \<longleftrightarrow> key \<in> set Object_prototype_members"

datatype 'a property = Own 'a | Inherited | Absent

definition get_property :: "(string \<rightharpoonup> 'a) \<Rightarrow> string \<Rightarrow> 'a property" where
  "get_property obj key =
     (case obj key of
        Some v \<Rightarrow> Own v
      | None \<Rightarrow> if inherited_member key then Inherited else Absent)"

text \<open>
  The tags that a record has for a region: the array under the region's own key of
  \<^verbatim>\<open>inference_types\<close>, and no tag when the region has no key there.
\<close>

definition types_at :: "model_info \<Rightarrow> string \<Rightarrow> string list" where
  "types_at model region =
     (case map_of (inference_types model) region of None \<Rightarrow> [] | Some ts \<Rightarrow> ts)"

text \<open>
  The value of \<^verbatim>\<open>model.inference_types[region] || []\<close>: an array of tags, or
  the inherited member of that name, which is truthy and so is not replaced by the empty
  array.
\<close>

datatype inference_types_value = Tags "string list" | Member string

definition inferenceTypes_of :: "model_info \<Rightarrow> string \<Rightarrow> inference_types_value" where
  "inferenceTypes_of model region =
     (case get_property (map_of (inference_types model)) region of
        Own ts \<Rightarrow> Tags ts
      | Absent \<Rightarrow> Tags []
      | Inherited \<Rightarrow> Member region)"

section \<open>The library (packages/typescript/src/index.ts)\<close>

text \<open>
  Every failure that the library raises itself is \<^verbatim>\<open>throw new Error(message)\<close>;
  the kind of the failure is carried by the message. \<open>TypeError\<close> is what the
  language raises for a property read on \<^verbatim>\<open>undefined\<close> and for a call of
  something that is not a function; its message is the engine's (V8's wording here).
\<close>

datatype error = Error string | TypeError string

definition not_found_message :: "string \<Rightarrow> string" where
  "not_found_message modelId =
     ''Model ID '' @ apos @ modelId @ apos @ '' not found in bedrock_models.json''"

definition unavailable_message :: "string \<Rightarrow> string \<Rightarrow> string list \<Rightarrow> string" where
  "unavailable_message modelId region rs =
     ''Model '' @ apos @ modelId @ apos @ '' is not available in region '' @ apos @ region @ apos
       @ ''. Available regions: '' @ join '', '' rs"

definition no_cris_message :: "string \<Rightarrow> string \<Rightarrow> string list \<Rightarrow> string" where
  "no_cris_message modelId region inferenceTypes =
     ''Model '' @ apos @ modelId @ apos @ '' does not support CRIS in region '' @ apos @ region @ apos
       @ ''. Available inference types: '' @ join '', '' inferenceTypes"

definition no_global_message :: "string \<Rightarrow> string \<Rightarrow> string list \<Rightarrow> string" where
  "no_global_message modelId region inferenceTypes =
     ''Model '' @ apos @ modelId @ apos
       @ '' does not support global inference profile in region '' @ apos @ region @ apos
       @ ''. Available inference types: '' @ join '', '' inferenceTypes"

definition cannot_read :: "string \<Rightarrow> string" where
  "cannot_read prop =
     ''Cannot read properties of undefined (reading '' @ apos @ prop @ apos @ '')''"

definition not_a_function :: "string \<Rightarrow> string" where
  "not_a_function method = ''inferenceTypes.'' @ method @ '' is not a function''"

text \<open>
  In each function \<^verbatim>\<open>data[id]\<close> is read once. When the id names an inherited
  member, \<^verbatim>\<open>!model\<close> is false and the function goes on with that member, whose
  \<^verbatim>\<open>regions\<close> and \<^verbatim>\<open>inference_types\<close> are \<^verbatim>\<open>undefined\<close>.
\<close>

definition isModelAvailable :: "ModelDataMap \<Rightarrow> string \<Rightarrow> string \<Rightarrow> error + bool" where
  "isModelAvailable data modelId region =
     (case get_property data modelId of
        Absent \<Rightarrow> Inr False
      | Own model \<Rightarrow> Inr (region \<in> set (regions model))
      | Inherited \<Rightarrow> Inl (TypeError (cannot_read ''includes'')))"

text \<open>The result \<open>None\<close> is \<^verbatim>\<open>undefined\<close>, the \<^verbatim>\<open>regions\<close> of an inherited member.\<close>

definition getAvailableRegions :: "ModelDataMap \<Rightarrow> string \<Rightarrow> error + string list option" where
  "getAvailableRegions data modelId =
     (case get_property data modelId of
        Absent \<Rightarrow> Inl (Error (not_found_message modelId))
      | Own model \<Rightarrow> Inr (Some (regions model))
      | Inherited \<Rightarrow> Inr None)"

definition hasGlobalProfile :: "ModelDataMap \<Rightarrow> string \<Rightarrow> string \<Rightarrow> error + bool" where
  "hasGlobalProfile data modelId region =
     (case get_property data modelId of
        Absent \<Rightarrow> Inr False
      | Inherited \<Rightarrow> Inl (TypeError (cannot_read region))
      | Own model \<Rightarrow>
          (case inferenceTypes_of model region of
             Tags inferenceTypes \<Rightarrow> Inr (''GLOBAL'' \<in> set inferenceTypes)
           | Member name \<Rightarrow> Inl (TypeError (not_a_function ''includes''))))"

definition profilePrefixes :: "string list" where
  "profilePrefixes = [''US'', ''EU'', ''CA'', ''JP'', ''AU'', ''APAC'', ''AP'', ''GLOBAL'']"

definition getInferenceProfiles :: "ModelDataMap \<Rightarrow> string \<Rightarrow> string \<Rightarrow> error + string list" where
  "getInferenceProfiles data modelId region =
     (case get_property data modelId of
        Absent \<Rightarrow> Inr []
      | Inherited \<Rightarrow> Inl (TypeError (cannot_read region))
      | Own model \<Rightarrow>
          (case inferenceTypes_of model region of
             Tags inferenceTypes \<Rightarrow> Inr (filter (\<lambda>t. t \<in> set profilePrefixes) inferenceTypes)
           | Member name \<Rightarrow> Inl (TypeError (not_a_function ''filter''))))"

text \<open>
  \<open>getInferenceTypes\<close> returns the value it read, whatever it is: for a region that
  names an inherited member and has no key, that member.
\<close>

definition getInferenceTypes ::
  "ModelDataMap \<Rightarrow> string \<Rightarrow> string \<Rightarrow> error + inference_types_value" where
  "getInferenceTypes data modelId region =
     (case get_property data modelId of
        Absent \<Rightarrow> Inr (Tags [])
      | Inherited \<Rightarrow> Inl (TypeError (cannot_read region))
      | Own model \<Rightarrow> Inr (inferenceTypes_of model region))"

text \<open>The filter of \<^verbatim>\<open>crisModelId\<close>: a tag that is none of the three fixed ones.\<close>

definition geo_tag :: "string \<Rightarrow> bool" where
  "geo_tag t \<longleftrightarrow> t \<noteq> ''GLOBAL'' \<and> t \<noteq> ''ON_DEMAND'' \<and> t \<noteq> ''PROVISIONED''"

definition crisModelId :: "ModelDataMap \<Rightarrow> string \<Rightarrow> string \<Rightarrow> error + string" where
  "crisModelId data modelId region =
     (case get_property data modelId of
        Absent \<Rightarrow> Inl (Error (not_found_message modelId))
      | Inherited \<Rightarrow> Inl (TypeError (cannot_read ''includes''))
      | Own model \<Rightarrow>
          if region \<notin> set (regions model)
          then Inl (Error (unavailable_message modelId region (regions model)))
          else
            (case inferenceTypes_of model region of
               Member name \<Rightarrow> Inl (TypeError (not_a_function ''filter''))
             | Tags inferenceTypes \<Rightarrow>
                 (case filter geo_tag inferenceTypes of
                    g # _ \<Rightarrow> Inr (toLowerCase g @ ''.'' @ modelId)
                  | [] \<Rightarrow>
                      if ''GLOBAL'' \<in> set inferenceTypes
                      then Inr (''global.'' @ modelId)
                      else Inl (Error (no_cris_message modelId region inferenceTypes)))))"

text \<open>
  \<open>globalModelId\<close> calls \<open>hasGlobalProfile\<close> first; what that call raises leaves
  \<open>globalModelId\<close> as it is. Only when the answer is \<^verbatim>\<open>false\<close> does it read
  the record again to say why.
\<close>

definition globalModelId :: "ModelDataMap \<Rightarrow> string \<Rightarrow> string \<Rightarrow> error + string" where
  "globalModelId data modelId region =
     (case hasGlobalProfile data modelId region of
        Inl e \<Rightarrow> Inl e
      | Inr True \<Rightarrow> Inr (''global.'' @ modelId)
      | Inr False \<Rightarrow>
          (case get_property data modelId of
             Absent \<Rightarrow> Inl (Error (not_found_message modelId))
           | Inherited \<Rightarrow> Inl (TypeError (cannot_read ''includes''))
           | Own model \<Rightarrow>
               if region \<notin> set (regions model)
               then Inl (Error (unavailable_message modelId region (regions model)))
               else
                 (case inferenceTypes_of model region of
                    Tags inferenceTypes \<Rightarrow>
                      Inl (Error (no_global_message modelId region inferenceTypes))
                  | Member name \<Rightarrow> Inl (TypeError (not_a_function ''join'')))))"

section \<open>The explorer (docs/app.js)\<close>

text \<open>
  The explorer keeps \<^verbatim>\<open>allModels\<close>, the entries of the same JSON document with
  the id put next to the record: a list of pairs \<open>(id, record)\<close> in document order.

  Its predicates return \<^verbatim>\<open>boolean | undefined\<close> (optional chaining on a
  missing entry gives \<^verbatim>\<open>undefined\<close>): \<open>None\<close> is \<^verbatim>\<open>undefined\<close>.
  A caller that filters on the result sees its truthiness.
\<close>

definition truthy :: "bool option \<Rightarrow> bool" where
  "truthy v \<longleftrightarrow> v = Some True"

text \<open>
  The optional \<^verbatim>\<open>region\<close> parameter: \<open>None\<close> is an omitted argument. The
  test \<^verbatim>\<open>if (region)\<close> also takes the empty string (the explorer's "All Regions")
  as no region.
\<close>

definition region_given :: "string option \<Rightarrow> string option" where
  "region_given region =
     (case region of None \<Rightarrow> None | Some r \<Rightarrow> if r = [] then None else Some r)"

definition CRIS_REGIONS :: "(string \<times> string) list" where
  "CRIS_REGIONS =
     [(''GLOBAL'', ''Global CRIS''), (''US'', ''US CRIS''), (''EU'', ''EU CRIS''),
      (''APAC'', ''APAC CRIS''), (''JP'', ''Japan CRIS''), (''AU'', ''Australia CRIS''),
      (''CA'', ''Canada CRIS'')]"

definition hasInferenceType :: "model_info \<Rightarrow> string \<Rightarrow> string option \<Rightarrow> bool option" where
  "hasInferenceType model ty region =
     (case region_given region of
        Some r \<Rightarrow>
          (case map_of (inference_types model) r of
             None \<Rightarrow> None
           | Some types \<Rightarrow> Some (ty \<in> set types))
      | None \<Rightarrow>
          Some (list_ex (\<lambda>types. ty \<in> set types) (map snd (inference_types model))))"

definition hasCRIS :: "model_info \<Rightarrow> string option \<Rightarrow> bool option" where
  "hasCRIS model region =
     (let crisTypes = map fst CRIS_REGIONS in
      case region_given region of
        Some r \<Rightarrow>
          (case map_of (inference_types model) r of
             None \<Rightarrow> None
           | Some typesAtRegion \<Rightarrow> Some (list_ex (\<lambda>ty. ty \<in> set crisTypes) typesAtRegion))
      | None \<Rightarrow>
          Some (list_ex (\<lambda>types. list_ex (\<lambda>ty. ty \<in> set crisTypes) types)
                  (map snd (inference_types model))))"

text \<open>
  A JavaScript \<^verbatim>\<open>Set\<close> of strings is the list of its elements in insertion
  order; \<^verbatim>\<open>add\<close> appends an element that is not there yet.
\<close>

definition set_add :: "string list \<Rightarrow> string \<Rightarrow> string list" where
  "set_add s x = (if x \<in> set s then s else s @ [x])"

definition add_all :: "string list \<Rightarrow> string list \<Rightarrow> string list" where
  "add_all xs s = fold (\<lambda>x s. set_add s x) xs s"

text \<open>The explorer's \<^verbatim>\<open>getInferenceTypes(model)\<close>, which takes no region.\<close>

definition getInferenceTypes_app :: "model_info \<Rightarrow> string list" where
  "getInferenceTypes_app model =
     fold (\<lambda>typeList types. add_all typeList types) (map snd (inference_types model)) []"

subsection \<open>populateCrisRegions\<close>









subsection \<open>showRegionMap: the topology that is drawn\<close>


section \<open>A small catalog\<close>

text \<open>
  Five records in the shape of \<^verbatim>\<open>bedrock_models.json\<close>. The last one keeps an
  \<^verbatim>\<open>inference_types\<close> key that its \<^verbatim>\<open>regions\<close> array does not list,
  which the loader accepts.
\<close>

definition sonnet_info :: model_info where
  "sonnet_info =
     \<lparr>regions = [''us-east-1'', ''us-west-2''],
      inference_types =
        [(''us-east-1'', [''US'', ''ON_DEMAND'']),
         (''us-west-2'', [''ON_DEMAND'', ''US'', ''GLOBAL''])],
      inferenceProfile =
        Some [(''US'', SourceMap [(''us-east-1'', [''us-west-2'', ''us-east-1'']),
                                  (''us-west-2'', [''us-west-2'', ''us-east-1''])]),
              (''GLOBAL'', RegionArray [''us-west-2''])],
      model_lifecycle_status = Some ''ACTIVE''\<rparr>"

definition nova_info :: model_info where
  "nova_info =
     \<lparr>regions = [''eu-west-2'', ''us-east-1''],
      inference_types =
        [(''eu-west-2'', [''GLOBAL'']),
         (''us-east-1'', [''US'', ''GLOBAL'', ''ON_DEMAND''])],
      inferenceProfile =
        Some [(''GLOBAL'', RegionArray [''us-east-1'', ''eu-west-2'', ''us-east-1'']),
              (''US'', SourceMap [(''us-east-1'', [''us-east-2'', ''us-east-1''])])],
      model_lifecycle_status = Some ''ACTIVE''\<rparr>"

definition jamba_info :: model_info where
  "jamba_info =
     \<lparr>regions = [''us-east-1''],
      inference_types = [(''us-east-1'', [''ON_DEMAND''])],
      inferenceProfile = None,
      model_lifecycle_status = Some ''LEGACY''\<rparr>"

definition twogeo_info :: model_info where
  "twogeo_info =
     \<lparr>regions = [''us-east-1''],
      inference_types = [(''us-east-1'', [''ON_DEMAND'', ''US'', ''EU'', ''GLOBAL''])],
      inferenceProfile = None,
      model_lifecycle_status = Some ''ACTIVE''\<rparr>"

definition stray_info :: model_info where
  "stray_info =
     \<lparr>regions = [''us-east-1''],
      inference_types =
        [(''us-east-1'', [''ON_DEMAND'']), (''mars-central-1'', [''GLOBAL''])],
      inferenceProfile = None,
      model_lifecycle_status = Some ''ACTIVE''\<rparr>"

definition example_models :: "(string \<times> model_info) list" where
  "example_models =
     [(''anthropic.claude-3-5-sonnet-20241022-v2:0'', sonnet_info),
      (''amazon.nova-2-lite-v1:0'', nova_info),
      (''ai21.jamba-1-5-large-v1:0'', jamba_info),
      (''example.two-geo-v1:0'', twogeo_info),
      (''example.stray-v1:0'', stray_info)]"

definition example_data :: ModelDataMap where
  "example_data = map_of example_models"

text \<open>
  Three more records: one whose only geo tag reads \<open>global\<close> once lowercased; one
  that lists two regions, the second a name every object inherits, without recording tags
  for them; and one that lists the empty string as a region.
\<close>

definition globalgeo_info :: model_info where
  "globalgeo_info =
     \<lparr>regions = [''us-east-1''],
      inference_types = [(''us-east-1'', [''Global'', ''GLOBAL''])],
      inferenceProfile = None,
      model_lifecycle_status = Some ''ACTIVE''\<rparr>"

definition unrecorded_info :: model_info where
  "unrecorded_info =
     \<lparr>regions = [''us-east-1'', ''eu-west-1'', ''constructor''],
      inference_types = [(''us-east-1'', [''ON_DEMAND''])],
      inferenceProfile = None,
      model_lifecycle_status = Some ''ACTIVE''\<rparr>"

definition blank_info :: model_info where
  "blank_info =
     \<lparr>regions = ['''', ''us-east-1''],
      inference_types = [('''', [''ON_DEMAND'']), (''us-east-1'', [''US'', ''ON_DEMAND''])],
      inferenceProfile = None,
      model_lifecycle_status = Some ''ACTIVE''\<rparr>"

definition edge_models :: "(string \<times> model_info) list" where
  "edge_models =
     [(''example.global-geo-v1:0'', globalgeo_info),
      (''example.unrecorded-v1:0'', unrecorded_info),
      (''example.blank-v1:0'', blank_info)]"

definition edge_data :: ModelDataMap where
  "edge_data = map_of edge_models"



section \<open>The tie-break of the specification\<close>

text \<open>
  The specification's choice among several geo tags: the smallest in the lexicographic
  order of strings. It is compared below with what \<open>crisModelId\<close> does.
\<close>

definition spec_smallest_tag :: "string list \<Rightarrow> string" where
  "spec_smallest_tag ts = fold min (tl ts) (hd ts)"

section \<open>Catalogs seen as sets of profile entries\<close>
















section \<open>Evaluation of the small catalog\<close>

lemma lower_US: "toLowerCase ''US'' = ''us''"
  by code_simp

lemma lower_Global: "toLowerCase ''Global'' = ''global''"
  by code_simp

lemma example_sonnet:
  "example_data ''anthropic.claude-3-5-sonnet-20241022-v2:0'' = Some sonnet_info"
  by (simp add: example_data_def example_models_def)

lemma example_nova: "example_data ''amazon.nova-2-lite-v1:0'' = Some nova_info"
  by (simp add: example_data_def example_models_def)

lemma example_jamba: "example_data ''ai21.jamba-1-5-large-v1:0'' = Some jamba_info"
  by (simp add: example_data_def example_models_def)

lemma example_twogeo: "example_data ''example.two-geo-v1:0'' = Some twogeo_info"
  by (simp add: example_data_def example_models_def)

lemma example_stray: "example_data ''example.stray-v1:0'' = Some stray_info"
  by (simp add: example_data_def example_models_def)

lemma example_unknown: "example_data ''invalid.model'' = None"
  by (simp add: example_data_def example_models_def)

lemma example_constructor: "example_data ''constructor'' = None"
  by (simp add: example_data_def example_models_def)

lemma edge_globalgeo: "edge_data ''example.global-geo-v1:0'' = Some globalgeo_info"
  by (simp add: edge_data_def edge_models_def)

lemma edge_unrecorded: "edge_data ''example.unrecorded-v1:0'' = Some unrecorded_info"
  by (simp add: edge_data_def edge_models_def)

lemma edge_blank: "edge_data ''example.blank-v1:0'' = Some blank_info"
  by (simp add: edge_data_def edge_models_def)

lemma inherited_constructor: "inherited_member ''constructor''"
  by (simp add: inherited_member_def Object_prototype_members_def)

lemma plain_region_names:
  "\<not> inherited_member ''us-east-1''" "\<not> inherited_member ''us-west-2''"
  "\<not> inherited_member ''eu-west-1''" "\<not> inherited_member ''eu-west-2''"
  "\<not> inherited_member ''mars-central-1''" "\<not> inherited_member ''''"
  by (simp_all add: inherited_member_def Object_prototype_members_def)

lemma plain_invalid_model: "\<not> inherited_member ''invalid.model''"
  by (simp add: inherited_member_def Object_prototype_members_def)

section \<open>Own keys and inherited members\<close>

lemma get_property_own: "obj key = Some v \<Longrightarrow> get_property obj key = Own v"
  by (simp add: get_property_def)

lemma get_property_absent:
  "obj key = None \<Longrightarrow> \<not> inherited_member key \<Longrightarrow> get_property obj key = Absent"
  by (simp add: get_property_def)

lemma get_property_inherited:
  "obj key = None \<Longrightarrow> inherited_member key \<Longrightarrow> get_property obj key = Inherited"
  by (simp add: get_property_def)

text \<open>
  Where the region has a key of its own, or names no inherited member, the value read is
  the array of the tags recorded for the region.
\<close>

lemma inferenceTypes_of_tags:
  assumes "map_of (inference_types model) region \<noteq> None \<or> \<not> inherited_member region"
  shows "inferenceTypes_of model region = Tags (types_at model region)"
  using assms
  by (auto simp: inferenceTypes_of_def get_property_def types_at_def split: option.splits)

lemma inferenceTypes_of_member:
  assumes "map_of (inference_types model) region = None" and "inherited_member region"
  shows "inferenceTypes_of model region = Member region"
  using assms by (simp add: inferenceTypes_of_def get_property_def)

lemma recorded_if_tagged:
  assumes "t \<in> set (types_at model region)"
  shows "map_of (inference_types model) region \<noteq> None"
  using assms by (cases "map_of (inference_types model) region") (simp_all add: types_at_def)

section \<open>The identifier that crisModelId selects\<close>

lemma crisModelId_known:
  assumes "data modelId = Some model" and "region \<in> set (regions model)"
    and "map_of (inference_types model) region \<noteq> None \<or> \<not> inherited_member region"
  shows "crisModelId data modelId region =
     (case filter geo_tag (types_at model region) of
        g # _ \<Rightarrow> Inr (toLowerCase g @ ''.'' @ modelId)
      | [] \<Rightarrow> if ''GLOBAL'' \<in> set (types_at model region) then Inr (''global.'' @ modelId)
              else Inl (Error (no_cris_message modelId region (types_at model region))))"
  using assms(1,2)
  by (simp add: crisModelId_def get_property_own inferenceTypes_of_tags [OF assms(3)]
      split: list.splits)

text \<open>The head of a filtered list is the first element of the list that passes.\<close>

lemma first_filter:
  assumes "\<exists>t \<in> set ts. P t"
  shows "\<exists>pre g post. ts = pre @ g # post \<and> (\<forall>t \<in> set pre. \<not> P t) \<and> P g
           \<and> filter P ts = g # filter P post"
  using assms
proof (induction ts)
  case Nil
  then show ?case by simp
next
  case (Cons a ts)
  show ?case
  proof (cases "P a")
    case True
    then have "a # ts = [] @ a # ts \<and> (\<forall>t \<in> set []. \<not> P t) \<and> P a
        \<and> filter P (a # ts) = a # filter P ts"
      by simp
    then show ?thesis by blast
  next
    case False
    with Cons.prems have "\<exists>t \<in> set ts. P t" by simp
    from Cons.IH [OF this] obtain pre g post
      where "ts = pre @ g # post" "\<forall>t \<in> set pre. \<not> P t" "P g"
        "filter P ts = g # filter P post"
      by blast
    with False have "a # ts = (a # pre) @ g # post \<and> (\<forall>t \<in> set (a # pre). \<not> P t) \<and> P g
        \<and> filter P (a # ts) = g # filter P post"
      by simp
    then show ?thesis by blast
  qed
qed

text \<open>
  C1, as stated. A region whose tags are \<open>Global\<close> and \<open>GLOBAL\<close>: the first is a
  geo tag (it is none of GLOBAL, ON_DEMAND, PROVISIONED), the second is GLOBAL, and
  \<open>crisModelId\<close> returns the global-prefixed identifier.
\<close>

theorem crisModelId_global_geo_counterexample:
  "edge_data ''example.global-geo-v1:0'' = Some globalgeo_info \<and>
   ''us-east-1'' \<in> set (regions globalgeo_info) \<and>
   types_at globalgeo_info ''us-east-1'' = [''Global'', ''GLOBAL''] \<and>
   geo_tag ''Global'' \<and>
   ''GLOBAL'' \<in> set (types_at globalgeo_info ''us-east-1'') \<and>
   crisModelId edge_data ''example.global-geo-v1:0'' ''us-east-1''
     = Inr ''global.example.global-geo-v1:0''"
proof -
  have r: "''us-east-1'' \<in> set (regions globalgeo_info)"
    by (simp add: globalgeo_info_def)
  have ts: "types_at globalgeo_info ''us-east-1'' = [''Global'', ''GLOBAL'']"
    by (simp add: types_at_def globalgeo_info_def)
  have g: "geo_tag ''Global''"
    by (simp add: geo_tag_def)
  have e: "map_of (inference_types globalgeo_info) ''us-east-1'' \<noteq> None
      \<or> \<not> inherited_member ''us-east-1''"
    by (simp add: plain_region_names)
  have "crisModelId edge_data ''example.global-geo-v1:0'' ''us-east-1''
     = Inr ''global.example.global-geo-v1:0''"
    by (simp add: crisModelId_known
        [of edge_data "''example.global-geo-v1:0''" globalgeo_info "''us-east-1''",
          OF edge_globalgeo r e]
        ts g lower_Global)
  with edge_globalgeo r ts g show ?thesis by simp
qed

text \<open>
  C1, amended. For a model of the catalog and a region of its \<open>regions\<close>, when the
  tags recorded at the region hold a geo tag (one that is not GLOBAL, ON_DEMAND or
  PROVISIONED) and also GLOBAL, \<open>crisModelId\<close> returns a lowercased geo tag of that
  region, then a dot, then the model id. That result is the global-prefixed id exactly
  when the geo tag itself reads \<open>global\<close> once lowercased.
\<close>

theorem crisModelId_geo_before_global:
  assumes "data modelId = Some model"
    and "region \<in> set (regions model)"
    and "\<exists>t \<in> set (types_at model region). geo_tag t"
    and "''GLOBAL'' \<in> set (types_at model region)"
  shows "\<exists>g \<in> set (types_at model region). geo_tag g \<and>
           crisModelId data modelId region = Inr (toLowerCase g @ ''.'' @ modelId) \<and>
           (crisModelId data modelId region = Inr (''global.'' @ modelId)
              \<longleftrightarrow> toLowerCase g = ''global'')"
proof -
  from first_filter [OF assms(3)] obtain pre g post
    where ts: "types_at model region = pre @ g # post" and g: "geo_tag g"
      and f: "filter geo_tag (types_at model region) = g # filter geo_tag post"
    by blast
  from assms(4)
  have e: "map_of (inference_types model) region \<noteq> None \<or> \<not> inherited_member region"
    by (simp add: recorded_if_tagged)
  have res: "crisModelId data modelId region = Inr (toLowerCase g @ ''.'' @ modelId)"
    using f by (simp add: crisModelId_known [of data modelId model region, OF assms(1,2) e])
  have "toLowerCase g = ''global''"
    if "toLowerCase g @ ''.'' @ modelId = ''global.'' @ modelId"
  proof -
    from that have "(toLowerCase g @ ''.'') @ modelId = (''global'' @ ''.'') @ modelId"
      by simp
    then have "toLowerCase g @ ''.'' = ''global'' @ ''.''"
      by (simp only: append_same_eq)
    then show ?thesis by (simp only: append_same_eq)
  qed
  with res have "crisModelId data modelId region = Inr (''global.'' @ modelId)
      \<longleftrightarrow> toLowerCase g = ''global''"
    by auto
  moreover have "g \<in> set (types_at model region)" using ts by simp
  ultimately show ?thesis using g res by blast
qed

theorem crisModelId_geo_before_global_witness:
  "example_data ''anthropic.claude-3-5-sonnet-20241022-v2:0'' = Some sonnet_info \<and>
   ''us-west-2'' \<in> set (regions sonnet_info) \<and>
   (\<exists>t \<in> set (types_at sonnet_info ''us-west-2''). geo_tag t) \<and>
   ''GLOBAL'' \<in> set (types_at sonnet_info ''us-west-2'') \<and>
   crisModelId example_data ''anthropic.claude-3-5-sonnet-20241022-v2:0'' ''us-west-2''
     = Inr ''us.anthropic.claude-3-5-sonnet-20241022-v2:0'' \<and>
   crisModelId example_data ''anthropic.claude-3-5-sonnet-20241022-v2:0'' ''us-west-2''
     \<noteq> Inr ''global.anthropic.claude-3-5-sonnet-20241022-v2:0''"
proof -
  have h2: "''us-west-2'' \<in> set (regions sonnet_info)"
    by (simp add: sonnet_info_def)
  have ts: "types_at sonnet_info ''us-west-2'' = [''ON_DEMAND'', ''US'', ''GLOBAL'']"
    by (simp add: types_at_def sonnet_info_def)
  have h3: "\<exists>t \<in> set (types_at sonnet_info ''us-west-2''). geo_tag t"
    by (simp add: ts geo_tag_def)
  have h4: "''GLOBAL'' \<in> set (types_at sonnet_info ''us-west-2'')"
    by (simp add: ts)
  from crisModelId_geo_before_global
    [of example_data "''anthropic.claude-3-5-sonnet-20241022-v2:0''" sonnet_info "''us-west-2''",
      OF example_sonnet h2 h3 h4]
  have "crisModelId example_data ''anthropic.claude-3-5-sonnet-20241022-v2:0'' ''us-west-2''
     = Inr ''us.anthropic.claude-3-5-sonnet-20241022-v2:0''"
    by (auto simp: ts geo_tag_def lower_US)
  with example_sonnet h2 h3 h4 show ?thesis by simp
qed

section \<open>Several geo tags\<close>

text \<open>
  C2, as stated. With the tags \<open>ON_DEMAND, US, EU, GLOBAL\<close> at a region the geo tags
  are \<open>US, EU\<close>; the lexicographically smallest is \<open>EU\<close>, and
  \<open>crisModelId\<close> answers with the \<open>us.\<close> prefix.
\<close>

theorem crisModelId_smallest_tag_counterexample:
  "example_data ''example.two-geo-v1:0'' = Some twogeo_info \<and>
   ''us-east-1'' \<in> set (regions twogeo_info) \<and>
   filter geo_tag (types_at twogeo_info ''us-east-1'') = [''US'', ''EU''] \<and>
   spec_smallest_tag (filter geo_tag (types_at twogeo_info ''us-east-1'')) = ''EU'' \<and>
   crisModelId example_data ''example.two-geo-v1:0'' ''us-east-1''
     = Inr ''us.example.two-geo-v1:0'' \<and>
   crisModelId example_data ''example.two-geo-v1:0'' ''us-east-1''
     \<noteq> Inr (toLowerCase (spec_smallest_tag (filter geo_tag (types_at twogeo_info ''us-east-1'')))
              @ ''.'' @ ''example.two-geo-v1:0'')"
proof -
  have r: "''us-east-1'' \<in> set (regions twogeo_info)"
    by (simp add: twogeo_info_def)
  have f: "filter geo_tag (types_at twogeo_info ''us-east-1'') = [''US'', ''EU'']"
    by (simp add: types_at_def twogeo_info_def geo_tag_def)
  have s: "spec_smallest_tag [''US'', ''EU''] = ''EU''"
    by (simp add: spec_smallest_tag_def min_def)
  have l: "toLowerCase ''EU'' = ''eu''"
    by code_simp
  have e: "map_of (inference_types twogeo_info) ''us-east-1'' \<noteq> None
      \<or> \<not> inherited_member ''us-east-1''"
    by (simp add: plain_region_names)
  have c: "crisModelId example_data ''example.two-geo-v1:0'' ''us-east-1''
     = Inr ''us.example.two-geo-v1:0''"
    by (simp add: crisModelId_known
        [of example_data "''example.two-geo-v1:0''" twogeo_info "''us-east-1''", OF example_twogeo r e]
        f lower_US)
  show ?thesis
    by (simp add: example_twogeo r f s l c)
qed

text \<open>
  C2, amended. With more than one geo tag at a region of the model, \<open>crisModelId\<close>
  returns the lowercased first geo tag in the recorded order of the tags, a dot and the
  model id.
\<close>

theorem crisModelId_first_geo_tag:
  assumes "data modelId = Some model"
    and "region \<in> set (regions model)"
    and "1 < length (filter geo_tag (types_at model region))"
  shows "\<exists>pre g post. types_at model region = pre @ g # post \<and>
           (\<forall>t \<in> set pre. \<not> geo_tag t) \<and> geo_tag g \<and>
           crisModelId data modelId region = Inr (toLowerCase g @ ''.'' @ modelId)"
proof -
  from assms(3) have "filter geo_tag (types_at model region) \<noteq> []"
    by auto
  then have "\<exists>t \<in> set (types_at model region). geo_tag t"
    by (simp add: filter_empty_conv)
  from first_filter [OF this] obtain pre g post
    where ts: "types_at model region = pre @ g # post"
      and pre: "\<forall>t \<in> set pre. \<not> geo_tag t" and g: "geo_tag g"
      and f: "filter geo_tag (types_at model region) = g # filter geo_tag post"
    by blast
  from ts have "g \<in> set (types_at model region)" by simp
  then have e: "map_of (inference_types model) region \<noteq> None \<or> \<not> inherited_member region"
    by (simp add: recorded_if_tagged)
  have "crisModelId data modelId region = Inr (toLowerCase g @ ''.'' @ modelId)"
    using f by (simp add: crisModelId_known [of data modelId model region, OF assms(1,2) e])
  with ts pre g show ?thesis by blast
qed

theorem crisModelId_first_geo_tag_witness:
  "example_data ''example.two-geo-v1:0'' = Some twogeo_info \<and>
   ''us-east-1'' \<in> set (regions twogeo_info) \<and>
   1 < length (filter geo_tag (types_at twogeo_info ''us-east-1'')) \<and>
   (\<exists>pre g post. types_at twogeo_info ''us-east-1'' = pre @ g # post \<and>
           (\<forall>t \<in> set pre. \<not> geo_tag t) \<and> geo_tag g \<and>
           crisModelId example_data ''example.two-geo-v1:0'' ''us-east-1''
             = Inr (toLowerCase g @ ''.'' @ ''example.two-geo-v1:0''))"
proof -
  have r: "''us-east-1'' \<in> set (regions twogeo_info)"
    by (simp add: twogeo_info_def)
  have n: "1 < length (filter geo_tag (types_at twogeo_info ''us-east-1''))"
    by (simp add: types_at_def twogeo_info_def geo_tag_def)
  from crisModelId_first_geo_tag
    [of example_data "''example.two-geo-v1:0''" twogeo_info "''us-east-1''", OF example_twogeo r n]
    example_twogeo r n
  show ?thesis by blast
qed

section \<open>No cross-region tag\<close>

lemma cris_type_cases:
  assumes "ty \<in> set (map fst CRIS_REGIONS)"
  shows "ty = ''GLOBAL'' \<or> geo_tag ty"
  using assms by (auto simp: CRIS_REGIONS_def geo_tag_def)

lemma hasCRIS_blank: "hasCRIS model (Some []) = hasCRIS model None"
  by (simp add: hasCRIS_def region_given_def)

text \<open>
  C3, as stated. Three regions that a record lists and whose recorded tags hold neither a
  geo tag nor GLOBAL. At the first, which has no key in \<open>inference_types\<close>,
  \<open>crisModelId\<close> fails as the claim says and \<open>hasCRIS\<close> is \<open>undefined\<close>, not
  \<open>false\<close>. At the second, the empty string, \<open>hasCRIS\<close> looks at all the regions
  of the record and is \<open>true\<close>. At the third, which names an inherited member and has
  no key, \<open>crisModelId\<close> raises a \<open>TypeError\<close>.
\<close>

theorem no_cris_support_counterexample:
  "edge_data ''example.unrecorded-v1:0'' = Some unrecorded_info \<and>
   ''eu-west-1'' \<in> set (regions unrecorded_info) \<and>
   types_at unrecorded_info ''eu-west-1'' = [] \<and>
   crisModelId edge_data ''example.unrecorded-v1:0'' ''eu-west-1''
     = Inl (Error (no_cris_message ''example.unrecorded-v1:0'' ''eu-west-1'' [])) \<and>
   hasCRIS unrecorded_info (Some ''eu-west-1'') = None \<and>
   hasCRIS unrecorded_info (Some ''eu-west-1'') \<noteq> Some False \<and>
   edge_data ''example.blank-v1:0'' = Some blank_info \<and>
   '''' \<in> set (regions blank_info) \<and>
   types_at blank_info '''' = [''ON_DEMAND''] \<and>
   \<not> geo_tag ''ON_DEMAND'' \<and>
   hasCRIS blank_info (Some '''') = Some True \<and>
   ''constructor'' \<in> set (regions unrecorded_info) \<and>
   types_at unrecorded_info ''constructor'' = [] \<and>
   crisModelId edge_data ''example.unrecorded-v1:0'' ''constructor''
     = Inl (TypeError (not_a_function ''filter''))"
proof -
  have r1: "''eu-west-1'' \<in> set (regions unrecorded_info)"
    and r3: "''constructor'' \<in> set (regions unrecorded_info)"
    by (simp_all add: unrecorded_info_def)
  have t1: "types_at unrecorded_info ''eu-west-1'' = []"
    and t3: "types_at unrecorded_info ''constructor'' = []"
    by (simp_all add: types_at_def unrecorded_info_def)
  have e1: "map_of (inference_types unrecorded_info) ''eu-west-1'' \<noteq> None
      \<or> \<not> inherited_member ''eu-west-1''"
    by (simp add: plain_region_names)
  have c1: "crisModelId edge_data ''example.unrecorded-v1:0'' ''eu-west-1''
     = Inl (Error (no_cris_message ''example.unrecorded-v1:0'' ''eu-west-1'' []))"
    by (simp add: crisModelId_known
        [of edge_data "''example.unrecorded-v1:0''" unrecorded_info "''eu-west-1''",
          OF edge_unrecorded r1 e1] t1)
  have h1: "hasCRIS unrecorded_info (Some ''eu-west-1'') = None"
    by (simp add: hasCRIS_def region_given_def unrecorded_info_def)
  have r2: "'''' \<in> set (regions blank_info)"
    by (simp add: blank_info_def)
  have t2: "types_at blank_info '''' = [''ON_DEMAND'']"
    by (simp add: types_at_def blank_info_def)
  have g2: "\<not> geo_tag ''ON_DEMAND''"
    by (simp add: geo_tag_def)
  have h2: "hasCRIS blank_info (Some '''') = Some True"
    by (simp add: hasCRIS_def region_given_def blank_info_def CRIS_REGIONS_def)
  have m3: "inferenceTypes_of unrecorded_info ''constructor'' = Member ''constructor''"
    by (rule inferenceTypes_of_member) (simp_all add: unrecorded_info_def inherited_constructor)
  have c3: "crisModelId edge_data ''example.unrecorded-v1:0'' ''constructor''
     = Inl (TypeError (not_a_function ''filter''))"
    using r3 by (simp add: crisModelId_def get_property_def edge_unrecorded m3)
  from edge_unrecorded edge_blank r1 r2 r3 t1 t2 t3 c1 h1 g2 h2 c3 show ?thesis
    by simp
qed

text \<open>
  C3, amended. For a model of the catalog and a region of its \<open>regions\<close> that has a
  key in \<open>inference_types\<close> or names no inherited member, whose recorded tags hold no
  geo tag and no GLOBAL, \<open>crisModelId\<close> fails with the message that says CRIS is not
  supported; the message contains the model id, the region and the recorded tags, joined
  by commas. For the same record and region, if the region is not the empty string,
  \<open>hasCRIS\<close> is \<open>false\<close> when the region has a key in \<open>inference_types\<close> and
  \<open>undefined\<close> when it has none. For the empty string \<open>hasCRIS\<close> answers as it
  does without a region.
\<close>

theorem crisModelId_no_cris_support:
  assumes "data modelId = Some model"
    and "region \<in> set (regions model)"
    and "map_of (inference_types model) region \<noteq> None \<or> \<not> inherited_member region"
    and "\<forall>t \<in> set (types_at model region). \<not> geo_tag t"
    and "''GLOBAL'' \<notin> set (types_at model region)"
  shows "crisModelId data modelId region
           = Inl (Error (no_cris_message modelId region (types_at model region))) \<and>
         sublist modelId (no_cris_message modelId region (types_at model region)) \<and>
         sublist region (no_cris_message modelId region (types_at model region)) \<and>
         sublist (join '', '' (types_at model region))
           (no_cris_message modelId region (types_at model region)) \<and>
         (region \<noteq> [] \<longrightarrow> map_of (inference_types model) region \<noteq> None \<longrightarrow>
            hasCRIS model (Some region) = Some False) \<and>
         (region \<noteq> [] \<longrightarrow> map_of (inference_types model) region = None \<longrightarrow>
            hasCRIS model (Some region) = None) \<and>
         hasCRIS model (Some []) = hasCRIS model None"
proof -
  from assms(4) have "filter geo_tag (types_at model region) = []"
    by (simp add: filter_empty_conv)
  with assms(5) have res: "crisModelId data modelId region
      = Inl (Error (no_cris_message modelId region (types_at model region)))"
    by (simp add: crisModelId_known [of data modelId model region, OF assms(1,2,3)])
  have m1: "sublist modelId (no_cris_message modelId region (types_at model region))"
    unfolding no_cris_message_def sublist_def
    by (rule exI [of _ "''Model '' @ apos"]) (simp add: exI)
  have m2: "sublist region (no_cris_message modelId region (types_at model region))"
    unfolding no_cris_message_def sublist_def
    by (rule exI [of _ "''Model '' @ apos @ modelId @ apos @ '' does not support CRIS in region '' @ apos"])
      (simp add: exI)
  have m3: "sublist (join '', '' (types_at model region))
      (no_cris_message modelId region (types_at model region))"
    unfolding no_cris_message_def sublist_def
    by (rule exI [of _ "''Model '' @ apos @ modelId @ apos @ '' does not support CRIS in region '' @ apos
         @ region @ apos @ ''. Available inference types: ''"], rule exI [of _ "[]"]) simp
  have none: "\<not> list_ex (\<lambda>ty. ty \<in> set (map fst CRIS_REGIONS)) (types_at model region)"
  proof
    assume "list_ex (\<lambda>ty. ty \<in> set (map fst CRIS_REGIONS)) (types_at model region)"
    then obtain ty where ty: "ty \<in> set (types_at model region)"
      and "ty \<in> set (map fst CRIS_REGIONS)"
      unfolding list_ex_iff by blast
    from cris_type_cases [OF this(2)] ty assms(4,5) show False by blast
  qed
  have h: "hasCRIS model (Some region)
      = (case map_of (inference_types model) region of None \<Rightarrow> None
         | Some ts \<Rightarrow> Some False)" if "region \<noteq> []"
    using that none
    by (simp add: hasCRIS_def region_given_def types_at_def Let_def split: option.splits)
  have h1: "region \<noteq> [] \<longrightarrow> map_of (inference_types model) region \<noteq> None \<longrightarrow>
      hasCRIS model (Some region) = Some False"
    using h by (auto split: option.splits)
  have h2: "region \<noteq> [] \<longrightarrow> map_of (inference_types model) region = None \<longrightarrow>
      hasCRIS model (Some region) = None"
    using h by (auto split: option.splits)
  from res m1 m2 m3 h1 h2 hasCRIS_blank show ?thesis by blast
qed

theorem crisModelId_no_cris_support_witness:
  "example_data ''ai21.jamba-1-5-large-v1:0'' = Some jamba_info \<and>
   ''us-east-1'' \<in> set (regions jamba_info) \<and>
   map_of (inference_types jamba_info) ''us-east-1'' \<noteq> None \<and>
   types_at jamba_info ''us-east-1'' = [''ON_DEMAND''] \<and>
   \<not> geo_tag ''ON_DEMAND'' \<and>
   ''GLOBAL'' \<notin> set (types_at jamba_info ''us-east-1'') \<and>
   ''us-east-1'' \<noteq> [] \<and>
   crisModelId example_data ''ai21.jamba-1-5-large-v1:0'' ''us-east-1''
     = Inl (Error (no_cris_message ''ai21.jamba-1-5-large-v1:0'' ''us-east-1'' [''ON_DEMAND''])) \<and>
   hasCRIS jamba_info (Some ''us-east-1'') = Some False \<and>
   edge_data ''example.unrecorded-v1:0'' = Some unrecorded_info \<and>
   ''eu-west-1'' \<in> set (regions unrecorded_info) \<and>
   map_of (inference_types unrecorded_info) ''eu-west-1'' = None \<and>
   \<not> inherited_member ''eu-west-1'' \<and>
   types_at unrecorded_info ''eu-west-1'' = [] \<and>
   hasCRIS unrecorded_info (Some ''eu-west-1'') = None"
proof -
  have r: "''us-east-1'' \<in> set (regions jamba_info)"
    by (simp add: jamba_info_def)
  have ts: "types_at jamba_info ''us-east-1'' = [''ON_DEMAND'']"
    by (simp add: types_at_def jamba_info_def)
  have g: "\<forall>t \<in> set (types_at jamba_info ''us-east-1''). \<not> geo_tag t"
    by (simp add: ts geo_tag_def)
  have n: "''GLOBAL'' \<notin> set (types_at jamba_info ''us-east-1'')"
    by (simp add: ts)
  have e: "map_of (inference_types jamba_info) ''us-east-1'' \<noteq> None"
    by (simp add: jamba_info_def)
  then have e': "map_of (inference_types jamba_info) ''us-east-1'' \<noteq> None
      \<or> \<not> inherited_member ''us-east-1''" by simp
  from crisModelId_no_cris_support
    [of example_data "''ai21.jamba-1-5-large-v1:0''" jamba_info "''us-east-1''",
      OF example_jamba r e' g n] e
  have 1: "crisModelId example_data ''ai21.jamba-1-5-large-v1:0'' ''us-east-1''
     = Inl (Error (no_cris_message ''ai21.jamba-1-5-large-v1:0'' ''us-east-1'' [''ON_DEMAND''])) \<and>
   hasCRIS jamba_info (Some ''us-east-1'') = Some False"
    by (simp add: ts)
  have r2: "''eu-west-1'' \<in> set (regions unrecorded_info)"
    by (simp add: unrecorded_info_def)
  have t2: "types_at unrecorded_info ''eu-west-1'' = []"
    by (simp add: types_at_def unrecorded_info_def)
  have m2: "map_of (inference_types unrecorded_info) ''eu-west-1'' = None"
    by (simp add: unrecorded_info_def)
  have p2: "\<not> inherited_member ''eu-west-1''"
    by (simp add: plain_region_names)
  then have e2: "map_of (inference_types unrecorded_info) ''eu-west-1'' \<noteq> None
      \<or> \<not> inherited_member ''eu-west-1''" by simp
  have g2: "\<forall>t \<in> set (types_at unrecorded_info ''eu-west-1''). \<not> geo_tag t"
    and n2: "''GLOBAL'' \<notin> set (types_at unrecorded_info ''eu-west-1'')"
    by (simp_all add: t2)
  from crisModelId_no_cris_support
    [of edge_data "''example.unrecorded-v1:0''" unrecorded_info "''eu-west-1''",
      OF edge_unrecorded r2 e2 g2 n2] m2
  have 2: "hasCRIS unrecorded_info (Some ''eu-west-1'') = None"
    by simp
  have "\<not> geo_tag ''ON_DEMAND''"
    by (simp add: geo_tag_def)
  with 1 2 example_jamba edge_unrecorded r ts n e r2 t2 m2 p2 show ?thesis by simp
qed

section \<open>Regions outside the model's list\<close>

lemma hasGlobalProfile_known:
  assumes "data modelId = Some model"
    and "map_of (inference_types model) region \<noteq> None \<or> \<not> inherited_member region"
  shows "hasGlobalProfile data modelId region = Inr (''GLOBAL'' \<in> set (types_at model region))"
  using assms(1)
  by (simp add: hasGlobalProfile_def get_property_own inferenceTypes_of_tags [OF assms(2)])

lemma hasGlobalProfile_member:
  assumes "data modelId = Some model"
    and "map_of (inference_types model) region = None" and "inherited_member region"
  shows "hasGlobalProfile data modelId region = Inl (TypeError (not_a_function ''includes''))"
  using assms(1)
  by (simp add: hasGlobalProfile_def get_property_own inferenceTypes_of_member [OF assms(2,3)])

lemma globalModelId_known:
  assumes "data modelId = Some model"
    and "map_of (inference_types model) region \<noteq> None \<or> \<not> inherited_member region"
  shows "globalModelId data modelId region =
     (if ''GLOBAL'' \<in> set (types_at model region) then Inr (''global.'' @ modelId)
      else if region \<notin> set (regions model)
        then Inl (Error (unavailable_message modelId region (regions model)))
        else Inl (Error (no_global_message modelId region (types_at model region))))"
  using assms(1)
  by (simp add: globalModelId_def hasGlobalProfile_known [of data modelId model region, OF assms] get_property_own
      inferenceTypes_of_tags [OF assms(2)])

lemma nova_constructor:
  "map_of (inference_types nova_info) ''constructor'' = None"
  by (simp add: nova_info_def)

text \<open>
  C4, as stated. Resolver operations that do not fail with the not-available error for a
  region outside the model's \<open>regions\<close>: \<open>getInferenceProfiles\<close> returns the empty
  list, or the tags it finds; \<open>globalModelId\<close> returns the global id when
  \<open>inference_types\<close> records GLOBAL under that region; both raise a
  \<open>TypeError\<close> when the region names an inherited member.
\<close>

theorem resolver_unavailable_region_counterexample:
  "example_data ''ai21.jamba-1-5-large-v1:0'' = Some jamba_info \<and>
   ''mars-central-1'' \<notin> set (regions jamba_info) \<and>
   getInferenceProfiles example_data ''ai21.jamba-1-5-large-v1:0'' ''mars-central-1'' = Inr [] \<and>
   example_data ''example.stray-v1:0'' = Some stray_info \<and>
   ''mars-central-1'' \<notin> set (regions stray_info) \<and>
   getInferenceProfiles example_data ''example.stray-v1:0'' ''mars-central-1''
     = Inr [''GLOBAL''] \<and>
   globalModelId example_data ''example.stray-v1:0'' ''mars-central-1''
     = Inr ''global.example.stray-v1:0'' \<and>
   example_data ''amazon.nova-2-lite-v1:0'' = Some nova_info \<and>
   ''constructor'' \<notin> set (regions nova_info) \<and>
   globalModelId example_data ''amazon.nova-2-lite-v1:0'' ''constructor''
     = Inl (TypeError (not_a_function ''includes'')) \<and>
   getInferenceProfiles example_data ''amazon.nova-2-lite-v1:0'' ''constructor''
     = Inl (TypeError (not_a_function ''filter''))"
proof -
  have e: "map_of (inference_types m) ''mars-central-1'' \<noteq> None
      \<or> \<not> inherited_member ''mars-central-1''" for m
    by (simp add: plain_region_names)
  have 1: "''mars-central-1'' \<notin> set (regions jamba_info)"
    by (simp add: jamba_info_def)
  have 2: "getInferenceProfiles example_data ''ai21.jamba-1-5-large-v1:0'' ''mars-central-1''
      = Inr []"
    by (simp add: getInferenceProfiles_def get_property_def example_jamba
        inferenceTypes_of_tags [OF e] types_at_def jamba_info_def)
  have 3: "''mars-central-1'' \<notin> set (regions stray_info)"
    by (simp add: stray_info_def)
  have t: "types_at stray_info ''mars-central-1'' = [''GLOBAL'']"
    by (simp add: types_at_def stray_info_def)
  have 4: "getInferenceProfiles example_data ''example.stray-v1:0'' ''mars-central-1''
      = Inr [''GLOBAL'']"
    by (simp add: getInferenceProfiles_def get_property_def example_stray
        inferenceTypes_of_tags [OF e] t profilePrefixes_def)
  have 5: "globalModelId example_data ''example.stray-v1:0'' ''mars-central-1''
     = Inr ''global.example.stray-v1:0''"
    by (simp add: globalModelId_known
        [of example_data "''example.stray-v1:0''" stray_info "''mars-central-1''",
          OF example_stray e] t)
  have 6: "''constructor'' \<notin> set (regions nova_info)"
    by (simp add: nova_info_def)
  have 7: "globalModelId example_data ''amazon.nova-2-lite-v1:0'' ''constructor''
     = Inl (TypeError (not_a_function ''includes''))"
    by (simp add: globalModelId_def hasGlobalProfile_member
        [of example_data "''amazon.nova-2-lite-v1:0''" nova_info "''constructor''",
          OF example_nova nova_constructor inherited_constructor])
  have 8: "getInferenceProfiles example_data ''amazon.nova-2-lite-v1:0'' ''constructor''
     = Inl (TypeError (not_a_function ''filter''))"
    by (simp add: getInferenceProfiles_def get_property_def example_nova
        inferenceTypes_of_member [OF nova_constructor inherited_constructor])
  from example_jamba example_stray example_nova 1 2 3 4 5 6 7 8 show ?thesis by blast
qed

lemma sublist_region_unavailable:
  "sublist region (unavailable_message modelId region rs)"
  unfolding unavailable_message_def sublist_def
  by (rule exI [of _ "''Model '' @ apos @ modelId @ apos @ '' is not available in region '' @ apos"])
    (simp add: exI)

lemma sublist_regions_unavailable:
  "sublist (join '', '' rs) (unavailable_message modelId region rs)"
  unfolding unavailable_message_def sublist_def
  by (rule exI [of _ "''Model '' @ apos @ modelId @ apos @ '' is not available in region '' @ apos
        @ region @ apos @ ''. Available regions: ''"], rule exI [of _ "[]"]) simp

text \<open>
  C4, amended. For a model of the catalog, \<open>isModelAvailable\<close> is true exactly for the
  members of its \<open>regions\<close>. For a region outside them, \<open>crisModelId\<close> fails with the
  message that the model is not available there, which contains the attempted region and
  the model's regions joined by commas; \<open>globalModelId\<close> fails in the same way when
  GLOBAL is not recorded for that region in \<open>inference_types\<close> and the region has a key
  there or names no inherited member.
\<close>

theorem unavailable_region:
  assumes "data modelId = Some model"
  shows "isModelAvailable data modelId region = Inr (region \<in> set (regions model)) \<and>
         (region \<notin> set (regions model) \<longrightarrow>
            crisModelId data modelId region
              = Inl (Error (unavailable_message modelId region (regions model))) \<and>
            sublist region (unavailable_message modelId region (regions model)) \<and>
            sublist (join '', '' (regions model))
              (unavailable_message modelId region (regions model)) \<and>
            (''GLOBAL'' \<notin> set (types_at model region) \<and>
             (map_of (inference_types model) region \<noteq> None \<or> \<not> inherited_member region) \<longrightarrow>
               globalModelId data modelId region
                 = Inl (Error (unavailable_message modelId region (regions model)))))"
proof -
  have a: "isModelAvailable data modelId region = Inr (region \<in> set (regions model))"
    using assms by (simp add: isModelAvailable_def get_property_own)
  have c: "crisModelId data modelId region
      = Inl (Error (unavailable_message modelId region (regions model)))"
    if "region \<notin> set (regions model)"
    using assms that by (simp add: crisModelId_def get_property_own)
  have g: "globalModelId data modelId region
      = Inl (Error (unavailable_message modelId region (regions model)))"
    if "region \<notin> set (regions model)" and "''GLOBAL'' \<notin> set (types_at model region)"
      and e: "map_of (inference_types model) region \<noteq> None \<or> \<not> inherited_member region"
    using that(1,2) by (simp add: globalModelId_known [of data modelId model region, OF assms e])
  from a c g sublist_region_unavailable sublist_regions_unavailable
  show ?thesis by blast
qed

theorem unavailable_region_witness:
  "example_data ''anthropic.claude-3-5-sonnet-20241022-v2:0'' = Some sonnet_info \<and>
   ''mars-central-1'' \<notin> set (regions sonnet_info) \<and>
   ''GLOBAL'' \<notin> set (types_at sonnet_info ''mars-central-1'') \<and>
   \<not> inherited_member ''mars-central-1'' \<and>
   isModelAvailable example_data ''anthropic.claude-3-5-sonnet-20241022-v2:0'' ''mars-central-1''
     = Inr False \<and>
   crisModelId example_data ''anthropic.claude-3-5-sonnet-20241022-v2:0'' ''mars-central-1''
     = Inl (Error (unavailable_message ''anthropic.claude-3-5-sonnet-20241022-v2:0''
         ''mars-central-1'' [''us-east-1'', ''us-west-2''])) \<and>
   globalModelId example_data ''anthropic.claude-3-5-sonnet-20241022-v2:0'' ''mars-central-1''
     = Inl (Error (unavailable_message ''anthropic.claude-3-5-sonnet-20241022-v2:0''
         ''mars-central-1'' [''us-east-1'', ''us-west-2'']))"
proof -
  have r: "regions sonnet_info = [''us-east-1'', ''us-west-2'']"
    by (simp add: sonnet_info_def)
  have n: "''mars-central-1'' \<notin> set (regions sonnet_info)"
    by (simp add: r)
  have t: "''GLOBAL'' \<notin> set (types_at sonnet_info ''mars-central-1'')"
    by (simp add: types_at_def sonnet_info_def)
  have p: "\<not> inherited_member ''mars-central-1''"
    by (simp add: plain_region_names)
  from unavailable_region
    [of example_data "''anthropic.claude-3-5-sonnet-20241022-v2:0''" sonnet_info "''mars-central-1''",
      OF example_sonnet] n t p example_sonnet
  show ?thesis by (simp add: r)
qed

section \<open>globalModelId\<close>

text \<open>
  C5, as stated. A region outside the model's \<open>regions\<close> for which
  \<open>inference_types\<close> records GLOBAL: \<open>globalModelId\<close> returns the global id and
  does not report the region as unavailable. A region outside \<open>regions\<close> that names an
  inherited member: \<open>globalModelId\<close> raises a \<open>TypeError\<close>.
\<close>

theorem globalModelId_unlisted_region_counterexample:
  "example_data ''example.stray-v1:0'' = Some stray_info \<and>
   ''mars-central-1'' \<notin> set (regions stray_info) \<and>
   globalModelId example_data ''example.stray-v1:0'' ''mars-central-1''
     = Inr ''global.example.stray-v1:0'' \<and>
   globalModelId example_data ''example.stray-v1:0'' ''mars-central-1''
     \<noteq> Inl (Error (unavailable_message ''example.stray-v1:0'' ''mars-central-1''
           (regions stray_info))) \<and>
   example_data ''amazon.nova-2-lite-v1:0'' = Some nova_info \<and>
   ''constructor'' \<notin> set (regions nova_info) \<and>
   ''GLOBAL'' \<notin> set (types_at nova_info ''constructor'') \<and>
   globalModelId example_data ''amazon.nova-2-lite-v1:0'' ''constructor''
     = Inl (TypeError (not_a_function ''includes''))"
proof -
  have e: "map_of (inference_types stray_info) ''mars-central-1'' \<noteq> None
      \<or> \<not> inherited_member ''mars-central-1''"
    by (simp add: plain_region_names)
  have t: "types_at stray_info ''mars-central-1'' = [''GLOBAL'']"
    by (simp add: types_at_def stray_info_def)
  have 1: "globalModelId example_data ''example.stray-v1:0'' ''mars-central-1''
     = Inr ''global.example.stray-v1:0''"
    by (simp add: globalModelId_known
        [of example_data "''example.stray-v1:0''" stray_info "''mars-central-1''",
          OF example_stray e] t)
  have 2: "''mars-central-1'' \<notin> set (regions stray_info)"
    by (simp add: stray_info_def)
  have 3: "''constructor'' \<notin> set (regions nova_info)"
    by (simp add: nova_info_def)
  have 4: "''GLOBAL'' \<notin> set (types_at nova_info ''constructor'')"
    by (simp add: types_at_def nova_info_def)
  have 5: "globalModelId example_data ''amazon.nova-2-lite-v1:0'' ''constructor''
     = Inl (TypeError (not_a_function ''includes''))"
    by (simp add: globalModelId_def hasGlobalProfile_member
        [of example_data "''amazon.nova-2-lite-v1:0''" nova_info "''constructor''",
          OF example_nova nova_constructor inherited_constructor])
  from example_stray example_nova 1 2 3 4 5 show ?thesis by simp
qed

text \<open>
  C5, amended. For a model of the catalog, \<open>globalModelId\<close> returns \<open>global.\<close>
  followed by the model id whenever GLOBAL is among the tags that \<open>inference_types\<close>
  records at the region, whether or not the region is in \<open>regions\<close>. When GLOBAL is not
  recorded there, and the region has a key in \<open>inference_types\<close> or names no inherited
  member, it fails with the not-available message if the region is outside \<open>regions\<close>,
  and with the no-global-profile message if the region is in \<open>regions\<close>.
\<close>

theorem globalModelId_cases:
  assumes "data modelId = Some model"
  shows "(''GLOBAL'' \<in> set (types_at model region) \<longrightarrow>
            globalModelId data modelId region = Inr (''global.'' @ modelId)) \<and>
         (''GLOBAL'' \<notin> set (types_at model region) \<and>
          (map_of (inference_types model) region \<noteq> None \<or> \<not> inherited_member region) \<and>
          region \<notin> set (regions model) \<longrightarrow>
            globalModelId data modelId region
              = Inl (Error (unavailable_message modelId region (regions model)))) \<and>
         (''GLOBAL'' \<notin> set (types_at model region) \<and>
          (map_of (inference_types model) region \<noteq> None \<or> \<not> inherited_member region) \<and>
          region \<in> set (regions model) \<longrightarrow>
            globalModelId data modelId region
              = Inl (Error (no_global_message modelId region (types_at model region))))"
proof -
  have 1: "globalModelId data modelId region = Inr (''global.'' @ modelId)"
    if g: "''GLOBAL'' \<in> set (types_at model region)"
  proof -
    from g have e: "map_of (inference_types model) region \<noteq> None \<or> \<not> inherited_member region"
      by (simp add: recorded_if_tagged)
    from g show ?thesis
      by (simp add: globalModelId_known [of data modelId model region, OF assms e])
  qed
  have 2: "globalModelId data modelId region
      = Inl (Error (unavailable_message modelId region (regions model)))"
    if "''GLOBAL'' \<notin> set (types_at model region)" and "region \<notin> set (regions model)"
      and e: "map_of (inference_types model) region \<noteq> None \<or> \<not> inherited_member region"
    using that(1,2) by (simp add: globalModelId_known [of data modelId model region, OF assms e])
  have 3: "globalModelId data modelId region
      = Inl (Error (no_global_message modelId region (types_at model region)))"
    if "''GLOBAL'' \<notin> set (types_at model region)" and "region \<in> set (regions model)"
      and e: "map_of (inference_types model) region \<noteq> None \<or> \<not> inherited_member region"
    using that(1,2) by (simp add: globalModelId_known [of data modelId model region, OF assms e])
  from 1 2 3 show ?thesis by blast
qed

theorem globalModelId_cases_witness:
  "example_data ''amazon.nova-2-lite-v1:0'' = Some nova_info \<and>
   ''GLOBAL'' \<in> set (types_at nova_info ''us-east-1'') \<and>
   globalModelId example_data ''amazon.nova-2-lite-v1:0'' ''us-east-1''
     = Inr ''global.amazon.nova-2-lite-v1:0'' \<and>
   ''GLOBAL'' \<notin> set (types_at nova_info ''mars-central-1'') \<and>
   \<not> inherited_member ''mars-central-1'' \<and>
   ''mars-central-1'' \<notin> set (regions nova_info) \<and>
   globalModelId example_data ''amazon.nova-2-lite-v1:0'' ''mars-central-1''
     = Inl (Error (unavailable_message ''amazon.nova-2-lite-v1:0'' ''mars-central-1''
         [''eu-west-2'', ''us-east-1''])) \<and>
   example_data ''ai21.jamba-1-5-large-v1:0'' = Some jamba_info \<and>
   ''GLOBAL'' \<notin> set (types_at jamba_info ''us-east-1'') \<and>
   \<not> inherited_member ''us-east-1'' \<and>
   ''us-east-1'' \<in> set (regions jamba_info) \<and>
   globalModelId example_data ''ai21.jamba-1-5-large-v1:0'' ''us-east-1''
     = Inl (Error (no_global_message ''ai21.jamba-1-5-large-v1:0'' ''us-east-1'' [''ON_DEMAND'']))"
proof -
  have t1: "''GLOBAL'' \<in> set (types_at nova_info ''us-east-1'')"
    by (simp add: types_at_def nova_info_def)
  have t2: "''GLOBAL'' \<notin> set (types_at nova_info ''mars-central-1'')"
    by (simp add: types_at_def nova_info_def)
  have r: "regions nova_info = [''eu-west-2'', ''us-east-1'']"
    by (simp add: nova_info_def)
  have n: "''mars-central-1'' \<notin> set (regions nova_info)"
    by (simp add: r)
  have t3: "types_at jamba_info ''us-east-1'' = [''ON_DEMAND'']"
    by (simp add: types_at_def jamba_info_def)
  have r3: "''us-east-1'' \<in> set (regions jamba_info)"
    by (simp add: jamba_info_def)
  note p = plain_region_names(1) plain_region_names(5)
  from globalModelId_cases
    [of example_data "''amazon.nova-2-lite-v1:0''" nova_info "''us-east-1''", OF example_nova]
    globalModelId_cases
    [of example_data "''amazon.nova-2-lite-v1:0''" nova_info "''mars-central-1''", OF example_nova]
    globalModelId_cases
    [of example_data "''ai21.jamba-1-5-large-v1:0''" jamba_info "''us-east-1''", OF example_jamba]
    t1 t2 n r3 p example_nova example_jamba
  show ?thesis by (simp add: r t3)
qed

section \<open>Unknown model ids\<close>

text \<open>
  C6, as stated. For an id that the catalog does not have, four of the lookups return a
  value (\<open>false\<close> or the empty array) and raise nothing. For an id that the catalog
  does not have and that names an inherited member, \<open>crisModelId\<close> and
  \<open>isModelAvailable\<close> raise a \<open>TypeError\<close>, \<open>getAvailableRegions\<close> returns
  \<open>undefined\<close>, and the other four raise a \<open>TypeError\<close> as well.
\<close>

theorem unknown_model_sentinel_counterexample:
  "example_data ''invalid.model'' = None \<and>
   isModelAvailable example_data ''invalid.model'' ''us-east-1'' = Inr False \<and>
   hasGlobalProfile example_data ''invalid.model'' ''us-east-1'' = Inr False \<and>
   getInferenceProfiles example_data ''invalid.model'' ''us-east-1'' = Inr [] \<and>
   getInferenceTypes example_data ''invalid.model'' ''us-east-1'' = Inr (Tags []) \<and>
   example_data ''constructor'' = None \<and>
   crisModelId example_data ''constructor'' ''us-east-1''
     = Inl (TypeError (cannot_read ''includes'')) \<and>
   isModelAvailable example_data ''constructor'' ''us-east-1''
     = Inl (TypeError (cannot_read ''includes'')) \<and>
   getAvailableRegions example_data ''constructor'' = Inr None \<and>
   hasGlobalProfile example_data ''constructor'' ''us-east-1''
     = Inl (TypeError (cannot_read ''us-east-1'')) \<and>
   getInferenceProfiles example_data ''constructor'' ''us-east-1''
     = Inl (TypeError (cannot_read ''us-east-1'')) \<and>
   getInferenceTypes example_data ''constructor'' ''us-east-1''
     = Inl (TypeError (cannot_read ''us-east-1'')) \<and>
   globalModelId example_data ''constructor'' ''us-east-1''
     = Inl (TypeError (cannot_read ''us-east-1''))"
proof -
  have a: "get_property example_data ''invalid.model'' = Absent"
    by (simp add: get_property_def example_unknown plain_invalid_model)
  have i: "get_property example_data ''constructor'' = Inherited"
    by (simp add: get_property_def example_constructor inherited_constructor)
  show ?thesis
    by (simp add: example_unknown example_constructor a i isModelAvailable_def
        hasGlobalProfile_def getInferenceProfiles_def getInferenceTypes_def crisModelId_def
        getAvailableRegions_def globalModelId_def)
qed

text \<open>
  C6, amended. For an id that the catalog does not have and that names no inherited
  member, \<open>getAvailableRegions\<close>, \<open>crisModelId\<close> and \<open>globalModelId\<close> fail with
  the not-found message that names the id; \<open>isModelAvailable\<close> and
  \<open>hasGlobalProfile\<close> return \<open>false\<close>, and \<open>getInferenceProfiles\<close> and
  \<open>getInferenceTypes\<close> return the empty array.
\<close>

theorem unknown_model:
  assumes "data modelId = None" and "\<not> inherited_member modelId"
  shows "getAvailableRegions data modelId = Inl (Error (not_found_message modelId)) \<and>
         crisModelId data modelId region = Inl (Error (not_found_message modelId)) \<and>
         globalModelId data modelId region = Inl (Error (not_found_message modelId)) \<and>
         sublist modelId (not_found_message modelId) \<and>
         isModelAvailable data modelId region = Inr False \<and>
         hasGlobalProfile data modelId region = Inr False \<and>
         getInferenceProfiles data modelId region = Inr [] \<and>
         getInferenceTypes data modelId region = Inr (Tags [])"
proof -
  have a: "get_property data modelId = Absent"
    using assms by (rule get_property_absent)
  have "sublist modelId (not_found_message modelId)"
    unfolding not_found_message_def sublist_def
    by (rule exI [of _ "''Model ID '' @ apos"]) (simp add: exI)
  then show ?thesis
    by (simp add: a getAvailableRegions_def crisModelId_def globalModelId_def
        isModelAvailable_def hasGlobalProfile_def getInferenceProfiles_def
        getInferenceTypes_def)
qed

theorem unknown_model_witness:
  "example_data ''invalid.model'' = None \<and>
   \<not> inherited_member ''invalid.model'' \<and>
   getAvailableRegions example_data ''invalid.model''
     = Inl (Error (not_found_message ''invalid.model'')) \<and>
   crisModelId example_data ''invalid.model'' ''us-east-1''
     = Inl (Error (not_found_message ''invalid.model'')) \<and>
   globalModelId example_data ''invalid.model'' ''us-east-1''
     = Inl (Error (not_found_message ''invalid.model''))"
  using unknown_model [of example_data "''invalid.model''" "''us-east-1''",
      OF example_unknown plain_invalid_model]
    example_unknown plain_invalid_model
  by simp

section \<open>hasGlobalProfile\<close>




section \<open>Sets of strings as insertion-ordered lists\<close>

lemma set_add_all: "set (add_all xs s) = set s \<union> set xs"
  unfolding add_all_def
  by (induction xs arbitrary: s) (auto simp: set_add_def)

lemma distinct_add_all: "distinct s \<Longrightarrow> distinct (add_all xs s)"
  unfolding add_all_def
  by (induction xs arbitrary: s) (auto simp: set_add_def)

section \<open>The inference-type index\<close>

lemma set_fold_add_all:
  "set (fold add_all ls acc) = set acc \<union> \<Union> (set ` set ls)"
proof (induction ls arbitrary: acc)
  case Nil
  show ?case by simp
next
  case (Cons l ls)
  have "set (fold add_all (l # ls) acc) = set (fold add_all ls (add_all l acc))"
    by simp
  also have "\<dots> = set (add_all l acc) \<union> \<Union> (set ` set ls)"
    by (rule Cons.IH)
  also have "\<dots> = set acc \<union> \<Union> (set ` set (l # ls))"
    by (auto simp: set_add_all)
  finally show ?case .
qed

lemma distinct_fold_add_all:
  "distinct acc \<Longrightarrow> distinct (fold add_all ls acc)"
  by (induction ls arbitrary: acc) (simp_all add: distinct_add_all)

lemma set_getInferenceTypes_app:
  "set (getInferenceTypes_app model) = \<Union> (set ` snd ` set (inference_types model))"
  by (simp add: getInferenceTypes_app_def set_fold_add_all)

text \<open>With the keys of an object distinct, its values are what the lookups of its keys give.\<close>

lemma values_by_lookup:
  assumes "distinct (map fst kvs)"
  shows "\<Union> (set ` snd ` set kvs)
           = (\<Union>k \<in> fst ` set kvs. set (case map_of kvs k of None \<Rightarrow> [] | Some v \<Rightarrow> v))"
proof (intro equalityI subsetI)
  fix t
  assume "t \<in> \<Union> (set ` snd ` set kvs)"
  then obtain kv where kv: "kv \<in> set kvs" and t: "t \<in> set (snd kv)"
    by blast
  from kv have "(fst kv, snd kv) \<in> set kvs" by simp
  with assms have "map_of kvs (fst kv) = Some (snd kv)"
    by (rule map_of_is_SomeI)
  with t have "t \<in> set (case map_of kvs (fst kv) of None \<Rightarrow> [] | Some v \<Rightarrow> v)"
    by simp
  with kv show "t \<in> (\<Union>k \<in> fst ` set kvs. set (case map_of kvs k of None \<Rightarrow> [] | Some v \<Rightarrow> v))"
    by blast
next
  fix t
  assume "t \<in> (\<Union>k \<in> fst ` set kvs. set (case map_of kvs k of None \<Rightarrow> [] | Some v \<Rightarrow> v))"
  then obtain k where t: "t \<in> set (case map_of kvs k of None \<Rightarrow> [] | Some v \<Rightarrow> v)"
    by blast
  then obtain v where v: "map_of kvs k = Some v" and tv: "t \<in> set v"
    by (cases "map_of kvs k") simp_all
  from v have "(k, v) \<in> set kvs" by (rule map_of_SomeD)
  then have "v \<in> snd ` set kvs" by force
  with tv show "t \<in> \<Union> (set ` snd ` set kvs)" by blast
qed

lemma hasInferenceType_at:
  assumes "region \<noteq> []"
  shows "truthy (hasInferenceType model ty (Some region)) \<longleftrightarrow> ty \<in> set (types_at model region)"
  using assms
  by (simp add: hasInferenceType_def region_given_def truthy_def types_at_def split: option.splits)

lemma hasInferenceType_anywhere:
  "truthy (hasInferenceType model ty None) \<longleftrightarrow> ty \<in> set (getInferenceTypes_app model)"
proof -
  have "hasInferenceType model ty None
      = Some (\<exists>types \<in> set (map snd (inference_types model)). ty \<in> set types)"
    by (simp add: hasInferenceType_def region_given_def list_ex_iff)
  then show ?thesis
    by (simp add: truthy_def set_getInferenceTypes_app)
qed

lemma hasInferenceType_blank:
  "hasInferenceType model ty (Some []) = hasInferenceType model ty None"
  by (simp add: hasInferenceType_def region_given_def)

lemma getInferenceTypes_known:
  assumes "data modelId = Some model"
    and "map_of (inference_types model) region \<noteq> None \<or> \<not> inherited_member region"
  shows "getInferenceTypes data modelId region = Inr (Tags (types_at model region))"
  using assms(1)
  by (simp add: getInferenceTypes_def get_property_own inferenceTypes_of_tags [OF assms(2)])

text \<open>
  C9, as stated. For a region that names an inherited member and has no entry, the
  library's \<open>getInferenceTypes\<close> returns that member, not the empty set. For a record
  whose \<open>inference_types\<close> has a key that \<open>regions\<close> does not list, the explorer's
  \<open>getInferenceTypes\<close> returns a tag (GLOBAL) that no listed region has. With the empty
  string as the region, \<open>hasInferenceType\<close> looks at all regions and is true for a tag
  that is not among the tags of that region.
\<close>

theorem inference_type_index_counterexample:
  "example_data ''amazon.nova-2-lite-v1:0'' = Some nova_info \<and>
   map_of (inference_types nova_info) ''constructor'' = None \<and>
   getInferenceTypes example_data ''amazon.nova-2-lite-v1:0'' ''constructor''
     = Inr (Member ''constructor'') \<and>
   regions stray_info = [''us-east-1''] \<and>
   types_at stray_info ''us-east-1'' = [''ON_DEMAND''] \<and>
   ''GLOBAL'' \<in> set (getInferenceTypes_app stray_info) \<and>
   getInferenceTypes example_data ''amazon.nova-2-lite-v1:0'' '''' = Inr (Tags []) \<and>
   truthy (hasInferenceType nova_info ''US'' (Some ''''))"
proof -
  have 1: "getInferenceTypes example_data ''amazon.nova-2-lite-v1:0'' ''constructor''
     = Inr (Member ''constructor'')"
    by (simp add: getInferenceTypes_def get_property_def example_nova
        inferenceTypes_of_member [OF nova_constructor inherited_constructor])
  have 2: "regions stray_info = [''us-east-1'']"
    by (simp add: stray_info_def)
  have 3: "types_at stray_info ''us-east-1'' = [''ON_DEMAND'']"
    by (simp add: types_at_def stray_info_def)
  have 4: "''GLOBAL'' \<in> set (getInferenceTypes_app stray_info)"
    by (simp add: set_getInferenceTypes_app stray_info_def)
  have e: "map_of (inference_types nova_info) '''' \<noteq> None \<or> \<not> inherited_member ''''"
    by (simp add: plain_region_names)
  have 5: "getInferenceTypes example_data ''amazon.nova-2-lite-v1:0'' '''' = Inr (Tags [])"
    by (simp add: getInferenceTypes_known
        [of example_data "''amazon.nova-2-lite-v1:0''" nova_info "''''", OF example_nova e]
        types_at_def nova_info_def)
  have "''US'' \<in> set (getInferenceTypes_app nova_info)"
    by (simp add: set_getInferenceTypes_app nova_info_def)
  then have 6: "truthy (hasInferenceType nova_info ''US'' (Some ''''))"
    by (simp add: hasInferenceType_blank hasInferenceType_anywhere)
  from example_nova nova_constructor 1 2 3 4 5 6 show ?thesis by simp
qed

text \<open>
  C9, amended. For a model of the catalog, the library's \<open>getInferenceTypes\<close> (the
  region is given) returns the tags recorded for the model at the region, and the empty
  list when \<open>inference_types\<close> has no entry for the region and the region names no
  inherited member. The explorer's \<open>getInferenceTypes\<close> (no region) returns, without
  duplicates, the union of the recorded tags over the regions that are keys of
  \<open>inference_types\<close>; where these keys are all members of \<open>regions\<close>, that is the
  union over \<open>regions\<close>. \<open>hasInferenceType\<close> is truthy exactly for the tags
  recorded at the region when a non-empty region is given that has a key in
  \<open>inference_types\<close> or names no inherited member; for the empty string it answers as
  it does without a region, and without a region it is truthy exactly for the members of
  the union.
\<close>

theorem inference_type_index:
  assumes "data modelId = Some model"
    and "distinct (map fst (inference_types model))"
  shows "(map_of (inference_types model) region = Some ts \<longrightarrow>
            getInferenceTypes data modelId region = Inr (Tags ts)) \<and>
         (map_of (inference_types model) region = None \<and> \<not> inherited_member region \<longrightarrow>
            getInferenceTypes data modelId region = Inr (Tags [])) \<and>
         set (getInferenceTypes_app model)
           = (\<Union>r \<in> fst ` set (inference_types model). set (types_at model r)) \<and>
         distinct (getInferenceTypes_app model) \<and>
         (fst ` set (inference_types model) \<subseteq> set (regions model) \<longrightarrow>
            set (getInferenceTypes_app model)
              = (\<Union>r \<in> set (regions model). set (types_at model r))) \<and>
         (region \<noteq> [] \<and>
          (map_of (inference_types model) region \<noteq> None \<or> \<not> inherited_member region) \<longrightarrow>
            (truthy (hasInferenceType model ty (Some region))
               \<longleftrightarrow> ty \<in> set (types_at model region))) \<and>
         hasInferenceType model ty (Some []) = hasInferenceType model ty None \<and>
         (truthy (hasInferenceType model ty None) \<longleftrightarrow> ty \<in> set (getInferenceTypes_app model))"
proof -
  have 1: "map_of (inference_types model) region = Some ts \<longrightarrow>
      getInferenceTypes data modelId region = Inr (Tags ts)"
  proof
    assume m: "map_of (inference_types model) region = Some ts"
    then have e: "map_of (inference_types model) region \<noteq> None \<or> \<not> inherited_member region"
      by simp
    from getInferenceTypes_known [of data modelId model region, OF assms(1) e] m
    show "getInferenceTypes data modelId region = Inr (Tags ts)"
      by (simp add: types_at_def)
  qed
  have 2: "map_of (inference_types model) region = None \<and> \<not> inherited_member region \<longrightarrow>
      getInferenceTypes data modelId region = Inr (Tags [])"
  proof
    assume m: "map_of (inference_types model) region = None \<and> \<not> inherited_member region"
    then have e: "map_of (inference_types model) region \<noteq> None \<or> \<not> inherited_member region"
      by simp
    from getInferenceTypes_known [of data modelId model region, OF assms(1) e] m
    show "getInferenceTypes data modelId region = Inr (Tags [])"
      by (simp add: types_at_def)
  qed
  have 3: "set (getInferenceTypes_app model)
      = (\<Union>r \<in> fst ` set (inference_types model). set (types_at model r))"
    unfolding types_at_def set_getInferenceTypes_app
    by (rule values_by_lookup [OF assms(2)])
  have 4: "distinct (getInferenceTypes_app model)"
    by (simp add: getInferenceTypes_app_def distinct_fold_add_all)
  have out: "types_at model r = []" if "r \<notin> fst ` set (inference_types model)" for r
    using that by (simp add: types_at_def map_of_eq_None_iff [THEN iffD2])
  have 5: "fst ` set (inference_types model) \<subseteq> set (regions model) \<longrightarrow>
      set (getInferenceTypes_app model)
        = (\<Union>r \<in> set (regions model). set (types_at model r))"
  proof
    assume sub: "fst ` set (inference_types model) \<subseteq> set (regions model)"
    have "(\<Union>r \<in> set (regions model). set (types_at model r))
        = (\<Union>r \<in> fst ` set (inference_types model). set (types_at model r))"
    proof (intro equalityI subsetI)
      fix t assume "t \<in> (\<Union>r \<in> set (regions model). set (types_at model r))"
      then obtain r where "t \<in> set (types_at model r)" by blast
      moreover from this out have "r \<in> fst ` set (inference_types model)" by fastforce
      ultimately show "t \<in> (\<Union>r \<in> fst ` set (inference_types model). set (types_at model r))"
        by blast
    next
      fix t assume "t \<in> (\<Union>r \<in> fst ` set (inference_types model). set (types_at model r))"
      with sub show "t \<in> (\<Union>r \<in> set (regions model). set (types_at model r))" by blast
    qed
    with 3 show "set (getInferenceTypes_app model)
        = (\<Union>r \<in> set (regions model). set (types_at model r))"
      by simp
  qed
  have 6: "region \<noteq> [] \<and>
      (map_of (inference_types model) region \<noteq> None \<or> \<not> inherited_member region) \<longrightarrow>
      (truthy (hasInferenceType model ty (Some region)) \<longleftrightarrow> ty \<in> set (types_at model region))"
    by (simp add: hasInferenceType_at)
  show ?thesis
    by (intro conjI 1 2 3 4 5 6 hasInferenceType_blank hasInferenceType_anywhere)
qed

theorem inference_type_index_witness:
  "example_data ''amazon.nova-2-lite-v1:0'' = Some nova_info \<and>
   distinct (map fst (inference_types nova_info)) \<and>
   map_of (inference_types nova_info) ''eu-west-2'' = Some [''GLOBAL''] \<and>
   getInferenceTypes example_data ''amazon.nova-2-lite-v1:0'' ''eu-west-2''
     = Inr (Tags [''GLOBAL'']) \<and>
   map_of (inference_types nova_info) ''mars-central-1'' = None \<and>
   \<not> inherited_member ''mars-central-1'' \<and>
   getInferenceTypes example_data ''amazon.nova-2-lite-v1:0'' ''mars-central-1''
     = Inr (Tags []) \<and>
   fst ` set (inference_types nova_info) \<subseteq> set (regions nova_info) \<and>
   set (getInferenceTypes_app nova_info)
     = (\<Union>r \<in> set (regions nova_info). set (types_at nova_info r)) \<and>
   ''eu-west-2'' \<noteq> [] \<and>
   truthy (hasInferenceType nova_info ''GLOBAL'' (Some ''eu-west-2'')) \<and>
   \<not> truthy (hasInferenceType nova_info ''US'' (Some ''eu-west-2'')) \<and>
   truthy (hasInferenceType nova_info ''US'' None)"
proof -
  have d: "distinct (map fst (inference_types nova_info))"
    by (simp add: nova_info_def)
  have m1: "map_of (inference_types nova_info) ''eu-west-2'' = Some [''GLOBAL'']"
    by (simp add: nova_info_def)
  have t1: "types_at nova_info ''eu-west-2'' = [''GLOBAL'']"
    by (simp add: types_at_def m1)
  have m2: "map_of (inference_types nova_info) ''mars-central-1'' = None"
    by (simp add: nova_info_def)
  have p2: "\<not> inherited_member ''mars-central-1''"
    by (simp add: plain_region_names)
  have sub: "fst ` set (inference_types nova_info) \<subseteq> set (regions nova_info)"
    by (simp add: nova_info_def)
  have app: "''US'' \<in> set (getInferenceTypes_app nova_info)"
    by (simp add: set_getInferenceTypes_app nova_info_def)
  note w = inference_type_index
    [of example_data "''amazon.nova-2-lite-v1:0''" nova_info, OF example_nova d]
  from w [of "''eu-west-2''" "[''GLOBAL'']" "''GLOBAL''"] m1 t1
  have a: "getInferenceTypes example_data ''amazon.nova-2-lite-v1:0'' ''eu-west-2''
      = Inr (Tags [''GLOBAL''])"
    and b: "truthy (hasInferenceType nova_info ''GLOBAL'' (Some ''eu-west-2''))"
    by simp_all
  from w [of "''eu-west-2''" "[''GLOBAL'']" "''US''"] m1 t1 app
  have c: "\<not> truthy (hasInferenceType nova_info ''US'' (Some ''eu-west-2''))"
    and e: "truthy (hasInferenceType nova_info ''US'' None)"
    by simp_all
  from w [of "''mars-central-1''" "[]" "''US''"] m2 p2 sub
  have f: "getInferenceTypes example_data ''amazon.nova-2-lite-v1:0'' ''mars-central-1''
      = Inr (Tags [])"
    and g: "set (getInferenceTypes_app nova_info)
     = (\<Union>r \<in> set (regions nova_info). set (types_at nova_info r))"
    by blast+
  from example_nova d m1 m2 p2 sub a b c e f g show ?thesis by simp
qed

section \<open>The topology drawn for one model\<close>





section \<open>The aggregation of profile coverage\<close>




subsection \<open>The target sets of one source map\<close>









subsection \<open>One entry added to the state\<close>














subsection \<open>The coverage is a function of the set of entries\<close>





subsection \<open>Sets stay free of duplicates\<close>







subsection \<open>Order of the models\<close>





end
